theory Spec2Isabelle
  imports Main
begin

section \<open>JavaScript values of src/api/index.js\<close>

text \<open>
  The \<open>timeout\<close> option of \<open>exec\<close> is a JavaScript number: the route handler passes
  \<open>parseInt(req.body.timeout)\<close>, an integer or \<open>NaN\<close>. Integral numbers are modelled
  by \<open>int\<close> (exact below \<open>2^53\<close>); fractional numbers are left out.
\<close>

datatype jsnumber = Num int | NaN

fun truthy :: "jsnumber \<Rightarrow> bool" where
  "truthy (Num n) = (n \<noteq> 0)"
| "truthy NaN = False"

text \<open>\<open>a || b\<close> on numbers: the left operand when it is truthy, else the right one.\<close>

definition js_or :: "jsnumber \<Rightarrow> jsnumber \<Rightarrow> jsnumber" where
  "js_or a b = (if truthy a then a else b)"

fun js_times :: "jsnumber \<Rightarrow> jsnumber \<Rightarrow> jsnumber" where
  "js_times (Num a) (Num b) = Num (a * b)"
| "js_times _ _ = NaN"

text \<open>
  Decimal rendering of an integral number inside a template literal
  (\<open>Number.prototype.toString\<close>, radix 10), as JavaScript prints numbers below
  \<open>10^21\<close>; from there on it prints an exponent, which is not modelled.
\<close>

definition digit_char :: "nat \<Rightarrow> char" where
  "digit_char d = ''0123456789'' ! d"

fun nat_dec :: "nat \<Rightarrow> string" where
  "nat_dec n = (if n < 10 then [digit_char n] else nat_dec (n div 10) @ [digit_char (n mod 10)])"

declare nat_dec.simps [simp del]

definition int_dec :: "int \<Rightarrow> string" where
  "int_dec i = (if i < 0 then CHR ''-'' # nat_dec (nat (- i)) else nat_dec (nat i))"

fun js_show :: "jsnumber \<Rightarrow> string" where
  "js_show (Num n) = int_dec n"
| "js_show NaN = ''NaN''"

text \<open>The exit code a \<open>close\<close> event delivers: a number, or \<open>null\<close> after a signal.\<close>

datatype close_code = ExitCode int | NullCode

fun show_code :: "close_code \<Rightarrow> string" where
  "show_code (ExitCode n) = int_dec n"
| "show_code NullCode = ''null''"

section \<open>Promises\<close>

text \<open>
  A promise settles once: \<open>resolve\<close> and \<open>reject\<close> on a settled promise do nothing.
  A rejection carries an \<open>Error\<close>, of which only the message is kept.
\<close>

datatype promise = Pending | Fulfilled string | Rejected string

fun settle :: "promise \<Rightarrow> promise \<Rightarrow> promise" where
  "settle Pending outcome = outcome"
| "settle (Fulfilled v) outcome = Fulfilled v"
| "settle (Rejected m) outcome = Rejected m"

fun settled :: "promise \<Rightarrow> bool" where
  "settled Pending = False"
| "settled (Fulfilled v) = True"
| "settled (Rejected m) = True"

section \<open>The host platform: processes, groups, signals\<close>

text \<open>
  \<open>child_process.spawn\<close> and \<open>process.kill\<close> are Node's, not this repository's. Their
  part that \<open>exec\<close> relies on is a process table of (pid, process group id) pairs:
  \<^item> \<open>spawn\<close> adds the child; the child leads a group of its own only with the option
    \<open>detached: true\<close>, otherwise it stays in the group of the server; a failed spawn
    adds nothing and leaves \<open>proc.pid\<close> undefined;
  \<^item> \<open>process.kill(-pid, 'SIGKILL')\<close> signals every process of the group \<open>pid\<close> and
    throws when there is none (\<open>ESRCH\<close>), or when \<open>-pid\<close> is \<open>NaN\<close>;
  \<^item> the command the child runs may call \<open>setsid\<close> itself (as \<open>setsid sleep 100\<close> does)
    and so become the leader of a group of its own, whose id is its pid.
\<close>

record spawn_options =
  detached :: bool

definition spawn_defaults :: spawn_options where
  "spawn_defaults = \<lparr>detached = False\<rparr>"

record host =
  host_pgid :: nat
  host_procs :: "(nat \<times> nat) list"

definition spawn :: "spawn_options option \<Rightarrow> host \<Rightarrow> nat option \<Rightarrow> (nat \<times> nat) list" where
  "spawn options h child =
     (case child of
        None \<Rightarrow> host_procs h
      | Some pid \<Rightarrow>
          host_procs h @
            [(pid, if detached (case options of None \<Rightarrow> spawn_defaults | Some opts \<Rightarrow> opts)
                   then pid else host_pgid h)])"

definition group_members :: "nat \<Rightarrow> (nat \<times> nat) list \<Rightarrow> nat list" where
  "group_members g ps = map fst (filter (\<lambda>p. snd p = g) ps)"

definition setsid :: "nat \<Rightarrow> (nat \<times> nat) list \<Rightarrow> (nat \<times> nat) list" where
  "setsid pid ps = map (\<lambda>p. if fst p = pid then (pid, pid) else p) ps"

datatype kill_error = ESRCH | ERR_INVALID_ARG_TYPE

definition process_kill_group :: "nat option \<Rightarrow> (nat \<times> nat) list \<Rightarrow> kill_error + nat list" where
  "process_kill_group pid ps =
     (case pid of
        None \<Rightarrow> Inl ERR_INVALID_ARG_TYPE
      | Some p \<Rightarrow> if group_members p ps = [] then Inl ESRCH else Inr (group_members p ps))"

section \<open>exec: the process runner\<close>

text \<open>
  The state one call of \<open>exec\<close> owns or touches: the promise it returns, the timer handle
  (the delay while armed, \<open>None\<close> once fired or cleared), the output buffer, the two
  console streams, the child (\<open>proc.pid\<close>), the process table, the processes that were
  sent SIGKILL, and the exceptions that left a callback uncaught.
\<close>

datatype js_error = ReferenceError string

record exec_state =
  promise :: promise
  timeoutSeconds :: jsnumber
  timer :: "jsnumber option"
  buffer :: "string list"
  console_log :: "string list"
  console_error :: "string list"
  proc_command :: string
  proc_args :: "string list"
  proc_pid :: "nat option"
  procs :: "(nat \<times> nat) list"
  sigkilled :: "nat list"
  uncaught :: "js_error list"

text \<open>
  Lines 20 to 38. The destructuring default \<open>timeout = 60_000\<close> applies when the option is
  omitted (\<open>undefined\<close>); \<open>timeout || 60\<close> replaces a falsy value; the timer is armed with
  \<open>timeoutSeconds * 1000\<close>; \<open>spawn(command, args)\<close> is called without options.
\<close>

definition exec :: "string \<Rightarrow> string list \<Rightarrow> jsnumber option \<Rightarrow> host \<Rightarrow> nat option \<Rightarrow> exec_state" where
  "exec command args timeout_option h child =
     (let timeout = (case timeout_option of None \<Rightarrow> Num 60000 | Some t \<Rightarrow> t);
          secs = js_or timeout (Num 60)
      in \<lparr>promise = Pending,
          timeoutSeconds = secs,
          timer = Some (js_times secs (Num 1000)),
          buffer = [],
          console_log = [],
          console_error = [],
          proc_command = command,
          proc_args = args,
          proc_pid = child,
          procs = spawn None h child,
          sigkilled = [],
          uncaught = []\<rparr>)"

definition resolve :: "exec_state \<Rightarrow> string \<Rightarrow> exec_state" where
  "resolve s v = s\<lparr>promise := settle (promise s) (Fulfilled v)\<rparr>"

definition reject :: "exec_state \<Rightarrow> string \<Rightarrow> exec_state" where
  "reject s m = s\<lparr>promise := settle (promise s) (Rejected m)\<rparr>"

definition timeout_message :: "jsnumber \<Rightarrow> string" where
  "timeout_message secs = ''Process timed out after '' @ js_show secs @ '' seconds.''"

definition exit_message :: "close_code \<Rightarrow> string" where
  "exit_message code = ''Process exited with non-zero code '' @ show_code code @ ''.''"

text \<open>
  Lines 30 to 37, the timer's callback. When the kill throws, the \<open>catch\<close> block builds
  its log line from \<open>cmd\<close>, a name no scope declares: the template throws a
  ReferenceError before \<open>console.error\<close> is called. The \<open>finally\<close> block then rejects,
  and the ReferenceError leaves the callback.
\<close>

definition timeout_callback :: "exec_state \<Rightarrow> exec_state" where
  "timeout_callback s =
     (case process_kill_group (proc_pid s) (procs s) of
        Inr victims \<Rightarrow>
          reject (s\<lparr>sigkilled := sigkilled s @ victims\<rparr>) (timeout_message (timeoutSeconds s))
      | Inl e \<Rightarrow>
          (let s' = reject s (timeout_message (timeoutSeconds s))
           in s'\<lparr>uncaught := uncaught s' @ [ReferenceError ''cmd'']\<rparr>))"

text \<open>
  Lines 42 to 54: the handlers of the child's events. A chunk is taken as the string
  \<open>data.toString()\<close> gives.
\<close>

definition on_error :: "exec_state \<Rightarrow> string \<Rightarrow> exec_state" where
  "on_error s err = s\<lparr>console_error := console_error s @ [err]\<rparr>"

definition on_data :: "exec_state \<Rightarrow> string \<Rightarrow> exec_state" where
  "on_data s output = s\<lparr>buffer := buffer s @ [output], console_log := console_log s @ [output]\<rparr>"

definition clearTimeout :: "exec_state \<Rightarrow> exec_state" where
  "clearTimeout s = s\<lparr>timer := None\<rparr>"

definition on_close :: "exec_state \<Rightarrow> close_code \<Rightarrow> exec_state" where
  "on_close s code =
     (let s' = clearTimeout s
      in if code = ExitCode 0 then resolve s' (concat (buffer s'))
         else reject s' (exit_message code))"

text \<open>
  What happens to one call of \<open>exec\<close>, in order: the events the event loop delivers to
  its handlers, and the child calling \<open>setsid\<close>. A timer fires only while it is armed,
  and at most once. Node ends the process at the first uncaught exception unless a
  handler is installed, and the source installs none; a run that goes on after one
  describes a host that keeps running, and every prefix of a run is a run.
\<close>

datatype event = Data string | ProcError string | Close close_code | TimerFire | ChildSetsid

definition child_setsid :: "exec_state \<Rightarrow> exec_state" where
  "child_setsid s =
     (case proc_pid s of None \<Rightarrow> s | Some pid \<Rightarrow> s\<lparr>procs := setsid pid (procs s)\<rparr>)"

fun step :: "exec_state \<Rightarrow> event \<Rightarrow> exec_state" where
  "step s (Data output) = on_data s output"
| "step s (ProcError err) = on_error s err"
| "step s (Close code) = on_close s code"
| "step s TimerFire =
     (case timer s of None \<Rightarrow> s | Some delay \<Rightarrow> timeout_callback (s\<lparr>timer := None\<rparr>))"
| "step s ChildSetsid = child_setsid s"

definition run :: "exec_state \<Rightarrow> event list \<Rightarrow> exec_state" where
  "run s es = foldl step s es"

section \<open>The job registry and the poll handler\<close>

text \<open>
  \<open>app.locals.jobs\<close> is a \<open>Map\<close> from job ids to promises. \<open>uuidv4()\<close> is the uuid
  package's; the id it returns is a parameter of \<open>launchJob\<close> (lines 64 to 71).
\<close>

type_synonym 'p jobs = "string \<rightharpoonup> 'p"

definition launchJob :: "string \<Rightarrow> 'p \<Rightarrow> 'p jobs \<Rightarrow> string \<times> 'p jobs" where
  "launchJob uuid p jobs = (uuid, jobs(uuid \<mapsto> p))"

text \<open>A sequence of registrations, each with the id \<open>uuidv4()\<close> gave it.\<close>

fun launchJobs :: "(string \<times> 'p) list \<Rightarrow> 'p jobs \<Rightarrow> string list \<times> 'p jobs" where
  "launchJobs [] jobs = ([], jobs)"
| "launchJobs ((uuid, p) # rest) jobs =
     (let (jobId, jobs') = launchJob uuid p jobs;
          (ids, jobs'') = launchJobs rest jobs'
      in (jobId # ids, jobs''))"

text \<open>Line 98: \<open>exec(...).then(() => redirect)\<close>, the promise that is registered.\<close>

fun then_redirect :: "promise \<Rightarrow> string \<Rightarrow> promise" where
  "then_redirect Pending redirect = Pending"
| "then_redirect (Fulfilled v) redirect = Fulfilled redirect"
| "then_redirect (Rejected m) redirect = Rejected m"

text \<open>
  Lines 110 to 120. \<open>jobs.get(jobId)\<close> is \<open>undefined\<close> for an id that is not a key, and
  \<open>await undefined\<close> is \<open>undefined\<close>; awaiting a pending promise suspends the handler
  (no response yet); a rejected promise throws its error into the \<open>catch\<close> block.
  The route \<open>/api/job/:id\<close> matches a non-empty id only.
\<close>

datatype awaited = Suspended | Value "string option" | Thrown string

fun await :: "promise option \<Rightarrow> awaited" where
  "await None = Value None"
| "await (Some Pending) = Suspended"
| "await (Some (Fulfilled v)) = Value (Some v)"
| "await (Some (Rejected m)) = Thrown m"

text \<open>A response: a redirect to a location, or a status code with the fields of a JSON body.\<close>

datatype response = Redirect string | Send nat "(string \<times> string) list"

definition job_handler :: "promise jobs \<Rightarrow> string \<Rightarrow> response option" where
  "job_handler jobs jobId =
     (case await (jobs jobId) of
        Suspended \<Rightarrow> None
      | Value redirect \<Rightarrow>
          (case redirect of
             None \<Rightarrow> Some (Send 200 [(''id'', jobId), (''status'', ''finished'')])
           | Some url \<Rightarrow>
               if url \<noteq> [] then Some (Redirect url)
               else Some (Send 200 [(''id'', jobId), (''status'', ''finished'')]))
      | Thrown m \<Rightarrow>
          Some (Send 500 [(''id'', jobId), (''status'', ''error''), (''error'', m)]))"

section \<open>Traces\<close>

text \<open>
  Events that settle nothing: output chunks and \<open>error\<close> events. \<open>outputs\<close> collects the
  chunks of a trace in arrival order.
\<close>

fun quiet :: "event \<Rightarrow> bool" where
  "quiet (Data output) = True"
| "quiet (ProcError err) = True"
| "quiet (Close code) = False"
| "quiet TimerFire = False"
| "quiet ChildSetsid = False"

fun outputs :: "event list \<Rightarrow> string list" where
  "outputs [] = []"
| "outputs (Data output # es) = output # outputs es"
| "outputs (ProcError err # es) = outputs es"
| "outputs (Close code # es) = outputs es"
| "outputs (TimerFire # es) = outputs es"
| "outputs (ChildSetsid # es) = outputs es"

section \<open>Lemmas\<close>

subsection \<open>Decimal rendering\<close>

lemma nat_dec_digit: "n < 10 \<Longrightarrow> nat_dec n = [digit_char n]"
  by (subst nat_dec.simps) simp

lemma nat_dec_more: "\<not> n < 10 \<Longrightarrow> nat_dec n = nat_dec (n div 10) @ [digit_char (n mod 10)]"
  by (subst nat_dec.simps) simp

lemma nat_dec_not_Nil: "nat_dec n \<noteq> []"
  by (subst nat_dec.simps) simp

lemma below_ten: "(d::nat) < 10 \<Longrightarrow> d = 0 \<or> d = 1 \<or> d = 2 \<or> d = 3 \<or> d = 4 \<or> d = 5 \<or> d = 6 \<or> d = 7 \<or> d = 8 \<or> d = 9"
  by arith

lemma digit_char_code: "d < 10 \<Longrightarrow> of_char (digit_char d) = 48 + d"
  using below_ten [of d] by (auto simp: digit_char_def)

lemma digit_char_in: "d < 10 \<Longrightarrow> digit_char d \<in> set ''0123456789''"
  using below_ten [of d] by (auto simp: digit_char_def)

lemma digit_char_inj:
  assumes "a < 10" and "b < 10" and "digit_char a = digit_char b"
  shows "a = b"
proof -
  have "(of_char (digit_char a) :: nat) = of_char (digit_char b)"
    using assms(3) by simp
  then have "48 + a = 48 + b"
    using assms(1,2) by (simp add: digit_char_code)
  then show ?thesis by simp
qed

lemma nat_dec_digits: "set (nat_dec n) \<subseteq> set ''0123456789''"
proof (induction n rule: nat_dec.induct)
  case (1 n)
  show ?case
  proof (cases "n < 10")
    case True
    then show ?thesis using digit_char_in [of n] by (simp add: nat_dec_digit)
  next
    case False
    have "n mod 10 < 10" by simp
    then have "digit_char (n mod 10) \<in> set ''0123456789''" by (rule digit_char_in)
    with False "1.IH" show ?thesis by (simp add: nat_dec_more)
  qed
qed

lemma nat_dec_inj: "nat_dec a = nat_dec b \<Longrightarrow> a = b"
proof (induction a arbitrary: b rule: nat_dec.induct)
  case (1 n)
  show ?case
  proof (cases "n < 10")
    case small: True
    show ?thesis
    proof (cases "b < 10")
      case True
      with small "1.prems" show ?thesis
        by (simp add: nat_dec_digit digit_char_inj)
    next
      case False
      with small "1.prems" have "[digit_char n] = nat_dec (b div 10) @ [digit_char (b mod 10)]"
        by (simp add: nat_dec_digit nat_dec_more)
      then have "nat_dec (b div 10) = []" by simp
      then show ?thesis by (simp add: nat_dec_not_Nil)
    qed
  next
    case big: False
    show ?thesis
    proof (cases "b < 10")
      case True
      with big "1.prems" have "nat_dec (n div 10) @ [digit_char (n mod 10)] = [digit_char b]"
        by (simp add: nat_dec_digit nat_dec_more)
      then have "nat_dec (n div 10) = []" by simp
      then show ?thesis by (simp add: nat_dec_not_Nil)
    next
      case False
      with big "1.prems" 
      have eq: "nat_dec (n div 10) @ [digit_char (n mod 10)] = nat_dec (b div 10) @ [digit_char (b mod 10)]"
        by (simp add: nat_dec_more)
      then have "nat_dec (n div 10) = nat_dec (b div 10)" by simp
      with big "1.IH" have q: "n div 10 = b div 10" by blast
      from eq have "digit_char (n mod 10) = digit_char (b mod 10)" by simp
      then have r: "n mod 10 = b mod 10" by (intro digit_char_inj) simp_all
      from q r show ?thesis by (metis div_mult_mod_eq)
    qed
  qed
qed

lemma nat_dec_no_minus: "CHR ''-'' \<notin> set (nat_dec n)"
proof
  assume "CHR ''-'' \<in> set (nat_dec n)"
  with nat_dec_digits [of n] have "CHR ''-'' \<in> set ''0123456789''" by (rule subsetD)
  then show False by simp
qed

lemma nat_dec_no_letter: "CHR ''n'' \<notin> set (nat_dec n)"
proof
  assume "CHR ''n'' \<in> set (nat_dec n)"
  with nat_dec_digits [of n] have "CHR ''n'' \<in> set ''0123456789''" by (rule subsetD)
  then show False by simp
qed

lemma int_dec_not_null: "int_dec i \<noteq> ''null''"
proof
  assume eq: "int_dec i = ''null''"
  show False
  proof (cases "i < 0")
    case True
    with eq show False by (simp add: int_dec_def)
  next
    case False
    with eq have "nat_dec (nat i) = ''null''" by (simp add: int_dec_def)
    then have "CHR ''n'' \<in> set (nat_dec (nat i))" by simp
    then show False by (simp add: nat_dec_no_letter)
  qed
qed

lemma int_dec_inj: "int_dec i = int_dec j \<Longrightarrow> i = j"
proof -
  assume eq: "int_dec i = int_dec j"
  show ?thesis
  proof (cases "i < 0")
    case ineg: True
    show ?thesis
    proof (cases "j < 0")
      case True
      with ineg eq have "nat_dec (nat (- i)) = nat_dec (nat (- j))" by (simp add: int_dec_def)
      then have "nat (- i) = nat (- j)" by (rule nat_dec_inj)
      with ineg True show ?thesis by simp
    next
      case False
      with ineg eq have "CHR ''-'' # nat_dec (nat (- i)) = nat_dec (nat j)" by (simp add: int_dec_def)
      then have "CHR ''-'' \<in> set (nat_dec (nat j))" by (metis list.set_intros(1))
      then show ?thesis by (simp add: nat_dec_no_minus)
    qed
  next
    case ipos: False
    show ?thesis
    proof (cases "j < 0")
      case True
      with ipos eq have "nat_dec (nat i) = CHR ''-'' # nat_dec (nat (- j))" by (simp add: int_dec_def)
      then have "CHR ''-'' \<in> set (nat_dec (nat i))" by simp
      then show ?thesis by (simp add: nat_dec_no_minus)
    next
      case False
      with ipos eq have "nat_dec (nat i) = nat_dec (nat j)" by (simp add: int_dec_def)
      then have "nat i = nat j" by (rule nat_dec_inj)
      with ipos False show ?thesis by simp
    qed
  qed
qed

lemma show_code_inj: "show_code c = show_code d \<Longrightarrow> c = d"
proof (cases c; cases d)
  fix n m assume "c = ExitCode n" "d = ExitCode m" "show_code c = show_code d"
  then show ?thesis by (simp add: int_dec_inj)
next
  fix n assume "c = ExitCode n" "d = NullCode" "show_code c = show_code d"
  then show ?thesis by (simp add: int_dec_not_null)
next
  fix m assume "c = NullCode" "d = ExitCode m" "show_code c = show_code d"
  then have "int_dec m = ''null''" by simp
  then show ?thesis by (simp add: int_dec_not_null)
qed simp

lemma exit_message_inj: "exit_message c = exit_message d \<Longrightarrow> c = d"
  by (simp add: exit_message_def show_code_inj)

subsection \<open>Promises and traces\<close>

lemma settle_settled: "settled p \<Longrightarrow> settle p q = p"
  by (cases p) simp_all

lemma run_Nil: "run s [] = s"
  by (simp add: run_def)

lemma run_Cons: "run s (e # es) = run (step s e) es"
  by (simp add: run_def)

lemma run_append: "run s (xs @ ys) = run (run s xs) ys"
  by (simp add: run_def)

lemma promise_timeout_callback:
  "promise (timeout_callback s) = settle (promise s) (Rejected (timeout_message (timeoutSeconds s)))"
  by (simp add: timeout_callback_def reject_def Let_def split: sum.split)

lemma promise_on_close:
  "promise (on_close s code) =
     settle (promise s) (if code = ExitCode 0 then Fulfilled (concat (buffer s)) else Rejected (exit_message code))"
  by (simp add: on_close_def clearTimeout_def resolve_def reject_def Let_def)

lemma step_keeps_settled: "settled (promise s) \<Longrightarrow> promise (step s e) = promise s"
  by (cases e)
     (simp_all add: on_data_def on_error_def promise_on_close promise_timeout_callback
        child_setsid_def settle_settled split: option.split)

lemma run_keeps_settled: "settled (promise s) \<Longrightarrow> promise (run s es) = promise s"
proof (induction es arbitrary: s)
  case Nil
  show ?case by (simp add: run_Nil)
next
  case (Cons e es)
  from Cons.prems have "promise (step s e) = promise s" by (rule step_keeps_settled)
  with Cons.prems Cons.IH [of "step s e"] show ?case by (simp add: run_Cons)
qed

lemma quiet_run:
  "list_all quiet es \<Longrightarrow>
     promise (run s es) = promise s \<and> timer (run s es) = timer s \<and>
     buffer (run s es) = buffer s @ outputs es \<and> timeoutSeconds (run s es) = timeoutSeconds s \<and>
     proc_pid (run s es) = proc_pid s \<and> procs (run s es) = procs s \<and>
     sigkilled (run s es) = sigkilled s \<and> uncaught (run s es) = uncaught s"
proof (induction es arbitrary: s)
  case Nil
  show ?case by (simp add: run_Nil)
next
  case (Cons e es)
  from Cons.prems have q: "quiet e" and qs: "list_all quiet es" by simp_all
  from q have st: "promise (step s e) = promise s \<and> timer (step s e) = timer s \<and>
     buffer (step s e) = buffer s @ outputs [e] \<and> timeoutSeconds (step s e) = timeoutSeconds s \<and>
     proc_pid (step s e) = proc_pid s \<and> procs (step s e) = procs s \<and>
     sigkilled (step s e) = sigkilled s \<and> uncaught (step s e) = uncaught s"
    by (cases e) (simp_all add: on_data_def on_error_def)
  have "outputs (e # es) = outputs [e] @ outputs es" by (cases e) simp_all
  with st Cons.IH [OF qs, of "step s e"] show ?case by (simp add: run_Cons)
qed

lemma exec_initial:
  "promise (exec command args t h child) = Pending \<and> buffer (exec command args t h child) = [] \<and>
   timer (exec command args t h child) \<noteq> None"
  by (simp add: exec_def Let_def)

lemma timer_gone_step:
  "timer s = None \<Longrightarrow>
     timer (step s e) = None \<and> sigkilled (step s e) = sigkilled s \<and> uncaught (step s e) = uncaught s"
  by (cases e)
     (simp_all add: on_data_def on_error_def on_close_def clearTimeout_def resolve_def reject_def
        child_setsid_def Let_def split: option.split)

lemma timer_gone_run:
  "timer s = None \<Longrightarrow>
     timer (run s es) = None \<and> sigkilled (run s es) = sigkilled s \<and> uncaught (run s es) = uncaught s"
proof (induction es arbitrary: s)
  case Nil
  then show ?case by (simp add: run_Nil)
next
  case (Cons e es)
  from timer_gone_step [OF Cons.prems, of e] Cons.IH [of "step s e"]
  show ?case by (simp add: run_Cons)
qed

lemma timer_on_close: "timer (on_close s code) = None"
  by (simp add: on_close_def clearTimeout_def resolve_def reject_def Let_def)

lemma exec_fresh:
  "sigkilled (exec command args t h child) = [] \<and> uncaught (exec command args t h child) = []"
  by (simp add: exec_def Let_def)

lemma settled_after_close: "settled (promise (step s (Close code)))"
  by (cases "promise s") (simp_all add: promise_on_close)

lemma settled_after_fire: "timer s \<noteq> None \<Longrightarrow> settled (promise (step s TimerFire))"
  by (cases "promise s") (auto simp: promise_timeout_callback)

lemma fire_after_close: "step (step s (Close code)) TimerFire = step s (Close code)"
  by (simp add: timer_on_close)

lemma close_after_fire:
  assumes "timer s \<noteq> None"
  shows "step (step s TimerFire) (Close code) = step s TimerFire"
proof -
  let ?f = "step s TimerFire"
  from assms have st: "settled (promise ?f)" by (rule settled_after_fire)
  from assms have tm: "timer ?f = None"
    by (auto simp: timeout_callback_def reject_def Let_def split: sum.split)
  from st have keep: "settle (promise ?f) q = promise ?f" for q by (rule settle_settled)
  from tm have "clearTimeout ?f = ?f" by (simp add: clearTimeout_def)
  with keep show ?thesis
    by (simp add: on_close_def resolve_def reject_def Let_def)
qed

lemma exec_child:
  "proc_pid (exec command args t h child) = child
   \<and> procs (exec command args t h (Some pid)) = host_procs h @ [(pid, host_pgid h)]"
  by (simp add: exec_def Let_def spawn_def spawn_defaults_def)

text \<open>
  A run in which the kill succeeds: the child runs \<open>setsid sleep 100\<close> and so leads
  the group 4242 when the timer fires after one second. The child is sent SIGKILL, nothing
  is thrown, and the promise is rejected with the timeout message.
\<close>

lemma setsid_run:
  "run (exec ''setsid'' [''sleep'', ''100''] (Some (Num 1))
        \<lparr>host_pgid = 100, host_procs = [(100, 100)]\<rparr> (Some 4242)) [ChildSetsid, TimerFire] =
   \<lparr>promise = Rejected ''Process timed out after 1 seconds.'',
    timeoutSeconds = Num 1, timer = None, buffer = [], console_log = [], console_error = [],
    proc_command = ''setsid'', proc_args = [''sleep'', ''100''], proc_pid = Some 4242,
    procs = [(100, 100), (4242, 4242)], sigkilled = [4242], uncaught = []\<rparr>"
  by (simp add: run_Cons run_Nil exec_def Let_def js_or_def spawn_def spawn_defaults_def
      child_setsid_def setsid_def timeout_callback_def process_kill_group_def group_members_def
      reject_def timeout_message_def int_dec_def nat_dec_digit digit_char_def)

subsection \<open>The registry and the poll handler\<close>

lemma launchJobs_Cons:
  "launchJobs ((u, p) # rest) jobs =
     (u # fst (launchJobs rest (jobs(u \<mapsto> p))), snd (launchJobs rest (jobs(u \<mapsto> p))))"
  by (simp add: launchJob_def split: prod.split)

lemma launchJobs_ids: "fst (launchJobs ups jobs) = map fst ups"
proof (induction ups arbitrary: jobs)
  case Nil
  show ?case by simp
next
  case (Cons a ups)
  obtain u p where "a = (u, p)" by (cases a)
  then have "fst (launchJobs (a # ups) jobs) = u # fst (launchJobs ups (jobs(u \<mapsto> p)))"
    by (simp only: launchJobs_Cons fst_conv)
  with \<open>a = (u, p)\<close> show ?case by (simp only: Cons.IH list.map fst_conv)
qed

lemma launchJobs_other: "u \<notin> set (map fst ups) \<Longrightarrow> snd (launchJobs ups jobs) u = jobs u"
proof (induction ups arbitrary: jobs)
  case Nil
  show ?case by simp
next
  case (Cons a ups)
  obtain v p where a: "a = (v, p)" by (cases a)
  with Cons.prems have "u \<noteq> v" and rest: "u \<notin> set (map fst ups)" by auto
  from a have "snd (launchJobs (a # ups) jobs) u = snd (launchJobs ups (jobs(v \<mapsto> p))) u"
    by (simp only: launchJobs_Cons snd_conv)
  also have "\<dots> = (jobs(v \<mapsto> p)) u" using rest by (rule Cons.IH)
  also have "\<dots> = jobs u" using \<open>u \<noteq> v\<close> by simp
  finally show ?case .
qed



text \<open>
  What the poll handler answers for a registered job: nothing while the job is pending,
  a redirect once \<open>exec\<close> has succeeded, status 500 with the failure message once it
  has failed.
\<close>

lemma job_handler_registered:
  "job_handler (jobs(jobId \<mapsto> then_redirect Pending url)) jobId = None"
  "url \<noteq> [] \<Longrightarrow>
     job_handler (jobs(jobId \<mapsto> then_redirect (Fulfilled out) url)) jobId = Some (Redirect url)"
  "job_handler (jobs(jobId \<mapsto> then_redirect (Rejected m) url)) jobId =
     Some (Send 500 [(''id'', jobId), (''status'', ''error''), (''error'', m)])"
  by (simp_all add: job_handler_def)

section \<open>The claims\<close>

subsection \<open>The default timeout\<close>

text \<open>
  C1. The delay the timer is armed with. With the option omitted the destructuring
  default 60000 is taken as a number of seconds, and the timer is armed with 60,000,000
  milliseconds; with the option 0 or \<open>NaN\<close> the fallback is 60 seconds, and the timer
  is armed with 60,000 milliseconds, as with the option 60. An omitted timeout and a zero
  timeout therefore arm different timers, and an omitted one does not arm it with 60,000
  milliseconds.
\<close>

theorem default_timeout_delay:
  "timer (exec command args None h child) = Some (Num 60000000)
   \<and> timeoutSeconds (exec command args None h child) = Num 60000
   \<and> timer (exec command args (Some (Num 0)) h child) = Some (Num 60000)
   \<and> timer (exec command args (Some NaN) h child) = Some (Num 60000)
   \<and> timer (exec command args (Some (Num 60)) h child) = Some (Num 60000)
   \<and> timer (exec command args (Some (Num 60000)) h child) = Some (Num 60000000)
   \<and> timer (exec command args None h child) \<noteq> timer (exec command args (Some (Num 0)) h child)"
  by (simp add: exec_def Let_def js_or_def)

subsection \<open>Polling an unknown job\<close>

text \<open>
  C2. For an id that was never registered, the lookup gives \<open>undefined\<close> (here \<open>None\<close>),
  no other job's promise. The poll handler awaits that value, finds no redirect, and
  answers with status 200 and the body \<open>{id, status: 'finished'}\<close>: the unknown id is
  reported as a finished job, not as an error. (A rejected job is answered with status
  500 and its message, as the witness shows.)
\<close>

theorem unregistered_job_reported_finished:
  assumes "jobId \<notin> set (fst (launchJobs ups Map.empty))"
  shows "snd (launchJobs ups Map.empty) jobId = None
         \<and> job_handler (snd (launchJobs ups Map.empty)) jobId =
             Some (Send 200 [(''id'', jobId), (''status'', ''finished'')])"
proof -
  from assms have "jobId \<notin> set (map fst ups)" by (simp add: launchJobs_ids)
  then have "snd (launchJobs ups Map.empty) jobId = None"
    using launchJobs_other [of jobId ups Map.empty] by simp
  then show ?thesis by (simp add: job_handler_def)
qed

theorem unregistered_job_reported_finished_witness:
  "job_handler (snd (launchJobs [(''id-a'', Rejected ''Process timed out after 60 seconds.'')] Map.empty))
      ''id-b'' = Some (Send 200 [(''id'', ''id-b''), (''status'', ''finished'')])
   \<and> job_handler (snd (launchJobs [(''id-a'', Rejected ''Process timed out after 60 seconds.'')] Map.empty))
      ''id-a'' = Some (Send 500 [(''id'', ''id-a''), (''status'', ''error''),
                   (''error'', ''Process timed out after 60 seconds.'')])"
proof -
  let ?ups = "[(''id-a'', Rejected ''Process timed out after 60 seconds.'')]"
  have "''id-b'' \<notin> set (fst (launchJobs ?ups Map.empty))"
    by (simp add: launchJob_def)
  from unregistered_job_reported_finished [OF this]
  have b: "job_handler (snd (launchJobs ?ups Map.empty)) ''id-b'' =
      Some (Send 200 [(''id'', ''id-b''), (''status'', ''finished'')])" by blast
  have a: "job_handler (snd (launchJobs ?ups Map.empty)) ''id-a'' =
      Some (Send 500 [(''id'', ''id-a''), (''status'', ''error''),
                   (''error'', ''Process timed out after 60 seconds.'')])"
    by (simp add: launchJob_def job_handler_def)
  from a b show ?thesis by blast
qed

subsection \<open>A kill that fails\<close>

text \<open>
  C3. When the timer fires on a pending operation and the kill throws, the promise is
  still rejected with the timeout message (the \<open>finally\<close> block runs). But the kill
  failure is not logged: nothing is written to either console stream, because building
  the log line throws a ReferenceError (\<open>cmd\<close> is not declared), and that error leaves
  the callback uncaught.
\<close>

theorem kill_failure_escapes:
  assumes "timer s = Some delay" and "promise s = Pending"
    and "process_kill_group (proc_pid s) (procs s) = Inl e"
  shows "promise (step s TimerFire) = Rejected (timeout_message (timeoutSeconds s))
         \<and> console_error (step s TimerFire) = console_error s
         \<and> console_log (step s TimerFire) = console_log s
         \<and> uncaught (step s TimerFire) = uncaught s @ [ReferenceError ''cmd'']"
  using assms by (simp add: timeout_callback_def reject_def Let_def)

theorem kill_failure_escapes_witness:
  "promise (step (exec ''sleep'' [''100''] (Some (Num 1))
        \<lparr>host_pgid = 100, host_procs = [(100, 100)]\<rparr> (Some 4242)) TimerFire) =
     Rejected ''Process timed out after 1 seconds.''
   \<and> console_error (step (exec ''sleep'' [''100''] (Some (Num 1))
        \<lparr>host_pgid = 100, host_procs = [(100, 100)]\<rparr> (Some 4242)) TimerFire) = []
   \<and> uncaught (step (exec ''sleep'' [''100''] (Some (Num 1))
        \<lparr>host_pgid = 100, host_procs = [(100, 100)]\<rparr> (Some 4242)) TimerFire) =
     [ReferenceError ''cmd'']"
proof -
  let ?e = "exec ''sleep'' [''100''] (Some (Num 1))
        \<lparr>host_pgid = 100, host_procs = [(100, 100)]\<rparr> (Some 4242)"
  have armed: "timer ?e = Some (Num 1000)"
    by (simp add: exec_def Let_def js_or_def)
  have pending: "promise ?e = Pending"
    by (simp add: exec_def Let_def)
  have fails: "process_kill_group (proc_pid ?e) (procs ?e) = Inl ESRCH"
    by (simp add: exec_def Let_def process_kill_group_def group_members_def spawn_def
        spawn_defaults_def)
  have start: "timeoutSeconds ?e = Num 1" "console_error ?e = []" "uncaught ?e = []"
    by (simp_all add: exec_def Let_def js_or_def)
  have msg: "timeout_message (Num 1) = ''Process timed out after 1 seconds.''"
    by (simp add: timeout_message_def int_dec_def nat_dec_digit digit_char_def)
  from kill_failure_escapes [OF armed pending fails] start msg
  show ?thesis by simp
qed

subsection \<open>The process group of the child\<close>

text \<open>
  C4. \<open>exec\<close> calls \<open>spawn(command, args)\<close> with no options, so the child is entered in
  the process table with the group id of the server, not with its own pid; only
  \<open>detached: true\<close> would make it the leader of a group of its own. In a server of group
  100 the child 4242 leaves the group 4242 without members, and the kill sent to that
  group throws \<open>ESRCH\<close>.
\<close>

theorem child_stays_in_server_group:
  "procs (exec command args t h (Some pid)) = host_procs h @ [(pid, host_pgid h)]
   \<and> spawn (Some \<lparr>detached = True\<rparr>) h (Some pid) = host_procs h @ [(pid, pid)]
   \<and> group_members 4242 (procs (exec ''npx'' [''percollate''] (Some (Num 1))
         \<lparr>host_pgid = 100, host_procs = [(100, 100)]\<rparr> (Some 4242))) = []
   \<and> process_kill_group (Some 4242) (procs (exec ''npx'' [''percollate''] (Some (Num 1))
         \<lparr>host_pgid = 100, host_procs = [(100, 100)]\<rparr> (Some 4242))) = Inl ESRCH"
  by (simp add: exec_def Let_def spawn_def spawn_defaults_def group_members_def
      process_kill_group_def)

subsection \<open>Settlement happens once\<close>

text \<open>
  C5. The promise of \<open>exec\<close> stays pending while only output and error events arrive.
  A close event settles it, and so does the timer while it is armed; a settled promise is
  fulfilled or rejected, never both. Once it is settled no later event changes it. When
  both the close event and the timer are delivered, only the first takes effect: a timer
  event after the close changes nothing, and a close event after the timer fired changes
  nothing.
\<close>

theorem settles_exactly_once:
  "(list_all quiet pre \<longrightarrow> promise (run (exec command args t h child) pre) = Pending)
   \<and> settled (promise (step s (Close code)))
   \<and> (timer s \<noteq> None \<longrightarrow> settled (promise (step s TimerFire)))
   \<and> settled p = ((\<exists>v. p = Fulfilled v) \<noteq> (\<exists>m. p = Rejected m))
   \<and> (settled (promise s) \<longrightarrow> promise (run s es) = promise s)
   \<and> step (step s (Close code)) TimerFire = step s (Close code)
   \<and> (timer s \<noteq> None \<longrightarrow> step (step s TimerFire) (Close code) = step s TimerFire)"
proof -
  have a: "list_all quiet pre \<longrightarrow> promise (run (exec command args t h child) pre) = Pending"
    using quiet_run [of pre "exec command args t h child"] exec_initial [of command args t h child]
    by simp
  have b: "settled p = ((\<exists>v. p = Fulfilled v) \<noteq> (\<exists>m. p = Rejected m))"
    by (cases p) simp_all
  from a b settled_after_close [of s code] settled_after_fire [of s] run_keeps_settled [of s es]
    fire_after_close [of s code] close_after_fire [of s code]
  show ?thesis by blast
qed

theorem settles_exactly_once_witness:
  "promise (run (exec ''sleep'' [''100''] (Some (Num 1))
        \<lparr>host_pgid = 100, host_procs = [(100, 100)]\<rparr> (Some 4242)) [Data ''zz'']) = Pending
   \<and> promise (run (exec ''sleep'' [''100''] (Some (Num 1))
        \<lparr>host_pgid = 100, host_procs = [(100, 100)]\<rparr> (Some 4242))
        [TimerFire, Close (ExitCode 0)]) = Rejected ''Process timed out after 1 seconds.''
   \<and> promise (run (exec ''sleep'' [''100''] (Some (Num 1))
        \<lparr>host_pgid = 100, host_procs = [(100, 100)]\<rparr> (Some 4242))
        [Close (ExitCode 0), TimerFire]) = Fulfilled []
   \<and> promise (run (step (exec ''sleep'' [''100''] (Some (Num 1))
        \<lparr>host_pgid = 100, host_procs = [(100, 100)]\<rparr> (Some 4242)) TimerFire)
        [Data ''late'', Close (ExitCode 3)]) = Rejected ''Process timed out after 1 seconds.''"
proof -
  let ?e = "exec ''sleep'' [''100''] (Some (Num 1))
        \<lparr>host_pgid = 100, host_procs = [(100, 100)]\<rparr> (Some 4242)"
  note once = settles_exactly_once [where s = ?e and code = "ExitCode 0" and pre = "[Data ''zz'']"
      and command = "''sleep''" and args = "[''100'']" and t = "Some (Num 1)"
      and h = "\<lparr>host_pgid = 100, host_procs = [(100, 100)]\<rparr>" and child = "Some 4242"]
  note later = settles_exactly_once [where s = "step ?e TimerFire"
      and es = "[Data ''late'', Close (ExitCode 3)]"]
  have quiet: "list_all quiet [Data ''zz'']" by simp
  have armed: "timer ?e \<noteq> None"
    by (simp add: exec_def Let_def)
  from once quiet have pending: "promise (run ?e [Data ''zz'']) = Pending"
    by blast
  from once armed have "step (step ?e TimerFire) (Close (ExitCode 0)) = step ?e TimerFire"
    by blast
  then have fire_first: "run ?e [TimerFire, Close (ExitCode 0)] = step ?e TimerFire"
    by (simp only: run_Cons run_Nil)
  from once have "step (step ?e (Close (ExitCode 0))) TimerFire = step ?e (Close (ExitCode 0))"
    by blast
  then have close_first: "run ?e [Close (ExitCode 0), TimerFire] = step ?e (Close (ExitCode 0))"
    by (simp only: run_Cons run_Nil)
  have fired: "promise (step ?e TimerFire) = Rejected ''Process timed out after 1 seconds.''"
    by (simp add: exec_def Let_def js_or_def promise_timeout_callback timeout_message_def
        int_dec_def nat_dec_digit digit_char_def)
  then have "settled (promise (step ?e TimerFire))" by simp
  with later fired
  have stays: "promise (run (step ?e TimerFire) [Data ''late'', Close (ExitCode 3)]) =
      Rejected ''Process timed out after 1 seconds.''"
    by simp
  have closed: "promise (step ?e (Close (ExitCode 0))) = Fulfilled []"
    by (simp add: exec_def Let_def promise_on_close)
  from pending fired closed stays show ?thesis
    unfolding fire_first close_first by simp
qed

subsection \<open>The timeout fires first\<close>

text \<open>
  C6. When the timer fires before the child closes, and the child's pid is not the id of
  a group that exists (the operating system gives a new process a pid that is no group's
  id), no process is sent SIGKILL: the group the kill addresses has no member. The
  promise is rejected with "Process timed out after N seconds.", where N is
  \<open>timeoutSeconds\<close>, and the timer was armed with N times 1000 milliseconds.
\<close>

theorem timeout_kill_reaches_no_process:
  assumes "list_all quiet pre" and "group_members pid (host_procs h) = []" and "pid \<noteq> host_pgid h"
  shows "sigkilled (run (exec command args t h (Some pid)) (pre @ [TimerFire])) = []
         \<and> promise (run (exec command args t h (Some pid)) (pre @ [TimerFire])) =
             Rejected (timeout_message (timeoutSeconds (exec command args t h (Some pid))))
         \<and> timer (exec command args t h (Some pid)) =
             Some (js_times (timeoutSeconds (exec command args t h (Some pid))) (Num 1000))"
proof -
  let ?e = "exec command args t h (Some pid)"
  let ?s = "run ?e pre"
  from assms(1) quiet_run [of pre ?e] exec_initial [of command args t h "Some pid"]
    exec_fresh [of command args t h "Some pid"] exec_child [of command args t h "Some pid" pid]
  have st: "promise ?s = Pending" "timer ?s \<noteq> None" "sigkilled ?s = []"
    "proc_pid ?s = Some pid" "procs ?s = host_procs h @ [(pid, host_pgid h)]"
    "timeoutSeconds ?s = timeoutSeconds ?e"
    by simp_all
  from assms(2,3) have "group_members pid (host_procs h @ [(pid, host_pgid h)]) = []"
    by (simp add: group_members_def)
  with st have fails: "process_kill_group (proc_pid ?s) (procs ?s) = Inl ESRCH"
    by (simp add: process_kill_group_def)
  from st obtain delay where armed: "timer ?s = Some delay" by blast
  have one: "run ?e (pre @ [TimerFire]) = step ?s TimerFire"
    by (simp add: run_append run_Cons run_Nil)
  from armed fails st have "sigkilled (step ?s TimerFire) = []"
    by (simp add: timeout_callback_def reject_def Let_def)
  moreover from armed st have "promise (step ?s TimerFire) = Rejected (timeout_message (timeoutSeconds ?e))"
    by (simp add: promise_timeout_callback)
  moreover have "timer ?e = Some (js_times (timeoutSeconds ?e) (Num 1000))"
    by (simp add: exec_def Let_def)
  ultimately show ?thesis unfolding one by simp
qed

theorem timeout_kill_reaches_no_process_witness:
  "sigkilled (run (exec ''npx'' [''percollate''] (Some (Num 1))
        \<lparr>host_pgid = 100, host_procs = [(100, 100)]\<rparr> (Some 4242)) [TimerFire]) = []
   \<and> promise (run (exec ''npx'' [''percollate''] (Some (Num 1))
        \<lparr>host_pgid = 100, host_procs = [(100, 100)]\<rparr> (Some 4242)) [TimerFire]) =
     Rejected ''Process timed out after 1 seconds.''"
proof -
  let ?h = "\<lparr>host_pgid = 100, host_procs = [(100, 100)]\<rparr>"
  have q: "list_all quiet []" by simp
  have g: "group_members 4242 (host_procs ?h) = []" by (simp add: group_members_def)
  have p: "(4242::nat) \<noteq> host_pgid ?h" by simp
  have secs: "timeoutSeconds (exec ''npx'' [''percollate''] (Some (Num 1)) ?h (Some 4242)) = Num 1"
    by (simp add: exec_def Let_def js_or_def)
  have msg: "timeout_message (Num 1) = ''Process timed out after 1 seconds.''"
    by (simp add: timeout_message_def int_dec_def nat_dec_digit digit_char_def)
  from timeout_kill_reaches_no_process [OF q g p, of "''npx''" "[''percollate'']" "Some (Num 1)"]
    secs msg
  show ?thesis by simp
qed

subsection \<open>Successful exit\<close>

text \<open>
  C7. When the child closes with exit code 0 before the timer fires (only output and
  error events came before), the close handler clears the timer and the promise is
  fulfilled with the chunks of standard output concatenated in arrival order, nothing
  added between them. A timer event after that is not delivered to the callback: the
  state stays as it is, whatever follows, no kill is sent and nothing is thrown. The
  witness is the run that writes "hello", then "world".
\<close>

theorem zero_exit_resolves:
  assumes "list_all quiet pre"
  shows "promise (run (exec command args t h child) (pre @ [Close (ExitCode 0)])) =
           Fulfilled (concat (outputs pre))
         \<and> timer (run (exec command args t h child) (pre @ [Close (ExitCode 0)])) = None
         \<and> step (run (exec command args t h child) (pre @ [Close (ExitCode 0)])) TimerFire =
             run (exec command args t h child) (pre @ [Close (ExitCode 0)])
         \<and> promise (run (exec command args t h child) (pre @ Close (ExitCode 0) # rest)) =
             Fulfilled (concat (outputs pre))
         \<and> sigkilled (run (exec command args t h child) (pre @ Close (ExitCode 0) # rest)) = []
         \<and> uncaught (run (exec command args t h child) (pre @ Close (ExitCode 0) # rest)) = []"
proof -
  let ?init = "exec command args t h child"
  let ?s = "run ?init pre"
  let ?c = "step ?s (Close (ExitCode 0))"
  from assms quiet_run [of pre ?init] exec_initial [of command args t h child] exec_fresh [of command args t h child]
  have pre: "promise ?s = Pending" "buffer ?s = outputs pre" "sigkilled ?s = []" "uncaught ?s = []"
    by simp_all
  have one: "run ?init (pre @ [Close (ExitCode 0)]) = ?c"
    by (simp add: run_append run_Cons run_Nil)
  have more: "run ?init (pre @ Close (ExitCode 0) # rest) = run ?c rest"
    by (simp add: run_append run_Cons)
  from pre have p: "promise ?c = Fulfilled (concat (outputs pre))"
    by (simp add: promise_on_close)
  have tm: "timer ?c = None" by (simp add: timer_on_close)
  from pre have clean: "sigkilled ?c = []" "uncaught ?c = []"
    by (simp_all add: on_close_def clearTimeout_def resolve_def reject_def Let_def)
  from tm have noop: "step ?c TimerFire = ?c" by simp
  from p have later: "promise (run ?c rest) = Fulfilled (concat (outputs pre))"
    using run_keeps_settled [of ?c rest] by simp
  from timer_gone_run [OF tm, of rest] clean
  have quiet_after: "sigkilled (run ?c rest) = []" "uncaught (run ?c rest) = []" by simp_all
  from p tm noop later quiet_after show ?thesis
    unfolding one more by simp
qed

theorem zero_exit_resolves_witness:
  "promise (run (exec ''printf'' [''helloworld''] (Some (Num 5))
        \<lparr>host_pgid = 100, host_procs = [(100, 100)]\<rparr> (Some 4242))
        [Data ''hello'', Data ''world'', Close (ExitCode 0), TimerFire]) = Fulfilled ''helloworld''"
  using zero_exit_resolves [of "[Data ''hello'', Data ''world'']" "''printf''" "[''helloworld'']"
      "Some (Num 5)" "\<lparr>host_pgid = 100, host_procs = [(100, 100)]\<rparr>" "Some 4242" "[TimerFire]"]
  by simp

subsection \<open>Non-zero exit\<close>

text \<open>
  C8. When the child closes with a non-zero exit code \<open>n\<close> before the timer fires (only
  output and error events came before), the promise is rejected with the message
  "Process exited with non-zero code n.", \<open>n\<close> in decimal. That message is no timeout
  message, and it identifies the code: two codes give the same message only when they are
  equal. Apart from the message, the state after the close does not depend on which
  non-zero code came.
\<close>

theorem nonzero_exit_rejects:
  assumes "list_all quiet pre" and "n \<noteq> 0"
  shows "promise (run (exec command args t h child) (pre @ [Close (ExitCode n)])) =
           Rejected (''Process exited with non-zero code '' @ int_dec n @ ''.'')
         \<and> ''Process exited with non-zero code '' @ int_dec n @ ''.'' \<noteq> timeout_message secs
         \<and> (exit_message (ExitCode m) = exit_message (ExitCode n)) = (m = n)
         \<and> (m \<noteq> 0 \<longrightarrow>
              (run (exec command args t h child) (pre @ [Close (ExitCode m)]))\<lparr>promise := p\<rparr> =
              (run (exec command args t h child) (pre @ [Close (ExitCode n)]))\<lparr>promise := p\<rparr>)"
proof -
  let ?s = "run (exec command args t h child) pre"
  from assms(1) have pend: "promise ?s = Pending"
    using quiet_run [of pre "exec command args t h child"] exec_initial [of command args t h child]
    by simp
  from assms(2) pend
  have a: "promise (run (exec command args t h child) (pre @ [Close (ExitCode n)])) =
           Rejected (''Process exited with non-zero code '' @ int_dec n @ ''.'')"
    by (simp add: run_append run_Cons run_Nil promise_on_close exit_message_def)
  have b: "''Process exited with non-zero code '' @ int_dec n @ ''.'' \<noteq> timeout_message secs"
    by (simp add: timeout_message_def)
  have c: "(exit_message (ExitCode m) = exit_message (ExitCode n)) = (m = n)"
    using exit_message_inj [of "ExitCode m" "ExitCode n"] by auto
  have d: "m \<noteq> 0 \<longrightarrow>
              (run (exec command args t h child) (pre @ [Close (ExitCode m)]))\<lparr>promise := p\<rparr> =
              (run (exec command args t h child) (pre @ [Close (ExitCode n)]))\<lparr>promise := p\<rparr>"
    using assms(2)
    by (simp add: run_append run_Cons run_Nil on_close_def reject_def clearTimeout_def Let_def)
  from a b c d show ?thesis by blast
qed

theorem nonzero_exit_rejects_witness:
  "promise (run (exec ''sh'' [''-c'', ''echo oops; exit 3''] (Some (Num 5))
        \<lparr>host_pgid = 100, host_procs = [(100, 100)]\<rparr> (Some 4242))
        [Data ''oops'', Close (ExitCode 3)]) =
     Rejected ''Process exited with non-zero code 3.''
   \<and> exit_message (ExitCode 4) \<noteq> exit_message (ExitCode 3)
   \<and> (run (exec ''sh'' [''-c'', ''echo oops; exit 3''] (Some (Num 5))
        \<lparr>host_pgid = 100, host_procs = [(100, 100)]\<rparr> (Some 4242))
        [Data ''oops'', Close (ExitCode 4)])\<lparr>promise := Pending\<rparr> =
     (run (exec ''sh'' [''-c'', ''echo oops; exit 3''] (Some (Num 5))
        \<lparr>host_pgid = 100, host_procs = [(100, 100)]\<rparr> (Some 4242))
        [Data ''oops'', Close (ExitCode 3)])\<lparr>promise := Pending\<rparr>"
proof -
  have q: "list_all quiet [Data ''oops'']" by simp
  have n: "(3::int) \<noteq> 0" by simp
  have three: "int_dec 3 = ''3''"
    by (simp add: int_dec_def nat_dec_digit digit_char_def)
  from nonzero_exit_rejects [OF q n, where m = 4 and p = Pending and command = "''sh''"
      and args = "[''-c'', ''echo oops; exit 3'']" and t = "Some (Num 5)"
      and h = "\<lparr>host_pgid = 100, host_procs = [(100, 100)]\<rparr>" and child = "Some 4242"] three
  show ?thesis by simp
qed

subsection \<open>Registry round trip\<close>




subsection \<open>A null exit code\<close>

text \<open>
  C10, as stated, fails after a timeout whose kill succeeds. The child runs
  \<open>setsid sleep 100\<close> and leads its own group; the timer fires, the child is sent
  SIGKILL, nothing is thrown, and the promise is rejected with the timeout message. The
  close event that then delivers a null code runs the non-zero branch without effect: the
  operation has not settled with the message "Process exited with non-zero code null.".
\<close>

theorem null_code_after_timeout_counterexample:
  "sigkilled (run (exec ''setsid'' [''sleep'', ''100''] (Some (Num 1))
        \<lparr>host_pgid = 100, host_procs = [(100, 100)]\<rparr> (Some 4242))
        [ChildSetsid, TimerFire]) = [4242]
   \<and> uncaught (run (exec ''setsid'' [''sleep'', ''100''] (Some (Num 1))
        \<lparr>host_pgid = 100, host_procs = [(100, 100)]\<rparr> (Some 4242))
        [ChildSetsid, TimerFire, Close NullCode]) = []
   \<and> promise (run (exec ''setsid'' [''sleep'', ''100''] (Some (Num 1))
        \<lparr>host_pgid = 100, host_procs = [(100, 100)]\<rparr> (Some 4242))
        [ChildSetsid, TimerFire, Close NullCode]) = Rejected ''Process timed out after 1 seconds.''
   \<and> promise (run (exec ''setsid'' [''sleep'', ''100''] (Some (Num 1))
        \<lparr>host_pgid = 100, host_procs = [(100, 100)]\<rparr> (Some 4242))
        [ChildSetsid, TimerFire, Close NullCode]) \<noteq>
       Rejected ''Process exited with non-zero code null.''"
proof -
  let ?e = "exec ''setsid'' [''sleep'', ''100''] (Some (Num 1))
        \<lparr>host_pgid = 100, host_procs = [(100, 100)]\<rparr> (Some 4242)"
  have "run ?e [ChildSetsid, TimerFire, Close NullCode] =
        step (run ?e [ChildSetsid, TimerFire]) (Close NullCode)"
    using run_append [of ?e "[ChildSetsid, TimerFire]" "[Close NullCode]"]
    by (simp add: run_Cons run_Nil)
  then show ?thesis
    by (simp add: setsid_run on_close_def clearTimeout_def reject_def Let_def)
qed

text \<open>
  C10, amended. When the close event delivers a null code while the operation is still
  pending (in particular when only output and error events came before), the promise is
  rejected with the message "Process exited with non-zero code null."; a pending
  operation is fulfilled by a close event only when the code is exactly the number 0.
  When the operation is already settled, the close event with a null code leaves the
  promise as it is.
\<close>

theorem null_code_rejects_while_pending:
  "(list_all quiet pre \<longrightarrow>
      promise (run (exec command args t h child) (pre @ [Close NullCode])) =
        Rejected ''Process exited with non-zero code null.'')
   \<and> (promise s = Pending \<longrightarrow>
        promise (step s (Close NullCode)) = Rejected ''Process exited with non-zero code null.'')
   \<and> (promise s = Pending \<longrightarrow>
        (\<exists>v. promise (step s (Close code)) = Fulfilled v) = (code = ExitCode 0))
   \<and> (settled (promise s) \<longrightarrow> promise (step s (Close NullCode)) = promise s)"
proof -
  have a: "list_all quiet pre \<longrightarrow>
      promise (run (exec command args t h child) (pre @ [Close NullCode])) =
        Rejected ''Process exited with non-zero code null.''"
    using quiet_run [of pre "exec command args t h child"] exec_initial [of command args t h child]
    by (simp add: run_append run_Cons run_Nil promise_on_close exit_message_def)
  have b: "promise s = Pending \<longrightarrow>
        promise (step s (Close NullCode)) = Rejected ''Process exited with non-zero code null.''"
    by (simp add: promise_on_close exit_message_def)
  have c: "promise s = Pending \<longrightarrow>
        (\<exists>v. promise (step s (Close code)) = Fulfilled v) = (code = ExitCode 0)"
    by (simp add: promise_on_close)
  have d: "settled (promise s) \<longrightarrow> promise (step s (Close NullCode)) = promise s"
    using step_keeps_settled [of s "Close NullCode"] by blast
  from a b c d show ?thesis by blast
qed

theorem null_code_rejects_while_pending_witness:
  "promise (run (exec ''setsid'' [''sleep'', ''100''] (Some (Num 1))
        \<lparr>host_pgid = 100, host_procs = [(100, 100)]\<rparr> (Some 4242)) [Data ''zz'', Close NullCode]) =
     Rejected ''Process exited with non-zero code null.''
   \<and> promise (step (exec ''setsid'' [''sleep'', ''100''] (Some (Num 1))
        \<lparr>host_pgid = 100, host_procs = [(100, 100)]\<rparr> (Some 4242)) (Close NullCode)) =
     Rejected ''Process exited with non-zero code null.''
   \<and> promise (step (run (exec ''setsid'' [''sleep'', ''100''] (Some (Num 1))
        \<lparr>host_pgid = 100, host_procs = [(100, 100)]\<rparr> (Some 4242)) [ChildSetsid, TimerFire])
        (Close NullCode)) =
     Rejected ''Process timed out after 1 seconds.''"
proof -
  let ?e = "exec ''setsid'' [''sleep'', ''100''] (Some (Num 1))
        \<lparr>host_pgid = 100, host_procs = [(100, 100)]\<rparr> (Some 4242)"
  let ?k = "run ?e [ChildSetsid, TimerFire]"
  note fresh = null_code_rejects_while_pending [where pre = "[Data ''zz'']" and s = ?e
      and command = "''setsid''" and args = "[''sleep'', ''100'']" and t = "Some (Num 1)"
      and h = "\<lparr>host_pgid = 100, host_procs = [(100, 100)]\<rparr>" and child = "Some 4242"]
  note late = null_code_rejects_while_pending [where s = ?k]
  have quiet: "list_all quiet [Data ''zz'']" by simp
  have pending: "promise ?e = Pending" by (simp add: exec_def Let_def)
  have fired: "promise ?k = Rejected ''Process timed out after 1 seconds.''"
    by (simp add: setsid_run)
  then have st: "settled (promise ?k)" by simp
  from fresh quiet have a: "promise (run ?e [Data ''zz'', Close NullCode]) =
      Rejected ''Process exited with non-zero code null.''" by simp
  from fresh pending have b: "promise (step ?e (Close NullCode)) =
      Rejected ''Process exited with non-zero code null.''" by blast
  from late st have "promise (step ?k (Close NullCode)) = promise ?k"
    by blast
  with fired have c: "promise (step ?k (Close NullCode)) =
      Rejected ''Process timed out after 1 seconds.''" by simp
  from a b c show ?thesis by blast
qed

end
